theory Spec2Isabelle
  imports Complex_Main "HOL-Library.AList" "HOL-Library.Log_Nat"
begin

section \<open>JavaScript values\<close>

text \<open>
  The client (\<^verbatim>\<open>src/static/js/app.js\<close>) works on the values that \<^verbatim>\<open>JSON.parse\<close> and
  \<^verbatim>\<open>response.json()\<close> hand it, with no type check of its own.  The model therefore keeps
  the whole JSON value space, plus \<^verbatim>\<open>undefined\<close> for a property that is not there.

  Strings are sequences of 8-bit code units (the Latin-1 range of JavaScript's UTF-16
  strings).  Numbers are rationals: the program only tests them against zero, and \<^verbatim>\<open>-0\<close>
  is \<open>0\<close>.  An object is the list of its own properties in creation order; its keys are
  distinct, as they are in every JavaScript object.
\<close>

datatype jsval =
    Undefined
  | Null
  | Bool bool
  | Num rat
  | Str string
  | Arr "jsval list"
  | Obj "(string \<times> jsval) list"

text \<open>
  Exceptions are values.  \<open>SyntaxError\<close> is what \<^verbatim>\<open>JSON.parse\<close> and \<^verbatim>\<open>response.json()\<close> throw,
  \<open>TypeError\<close> is a property read on \<^verbatim>\<open>null\<close>/\<^verbatim>\<open>undefined\<close>, a call of something that is not
  a function, a failed conversion to a primitive, or a rejected \<^verbatim>\<open>fetch\<close>; \<open>Error m\<close> is
  \<^verbatim>\<open>new Error(m)\<close>.  The message text of the first two is chosen by the engine.
\<close>

datatype js_error = SyntaxError | TypeError | Error string

text \<open>Truthiness, as \<^verbatim>\<open>||\<close>, \<^verbatim>\<open>!\<close>, \<^verbatim>\<open>if\<close> and \<^verbatim>\<open>? :\<close> test it.\<close>

fun truthy :: "jsval \<Rightarrow> bool" where
  "truthy Undefined = False"
| "truthy Null = False"
| "truthy (Bool b) = b"
| "truthy (Num n) = (n \<noteq> 0)"
| "truthy (Str s) = (s \<noteq> [])"
| "truthy (Arr xs) = True"
| "truthy (Obj kvs) = True"

text \<open>What the optional chaining operator \<^verbatim>\<open>?.\<close> short-circuits on.\<close>

fun nullish :: "jsval \<Rightarrow> bool" where
  "nullish Undefined = True"
| "nullish Null = True"
| "nullish v = False"

text \<open>\<^verbatim>\<open>a || b\<close> on values.\<close>

definition or_else :: "jsval \<Rightarrow> jsval \<Rightarrow> jsval" where
  "or_else a b = (if truthy a then a else b)"

text \<open>
  A property read \<^verbatim>\<open>v.name\<close>.  Reading from \<^verbatim>\<open>null\<close> or \<^verbatim>\<open>undefined\<close> throws; an object
  yields its own property or \<^verbatim>\<open>undefined\<close>; arrays and strings have \<^verbatim>\<open>length\<close>.  The names
  the program reads from data (\<^verbatim>\<open>analysis\<close>, \<^verbatim>\<open>summary\<close>, \<^verbatim>\<open>findings\<close>, \<^verbatim>\<open>participants\<close>, \<^verbatim>\<open>severity\<close>,
  \<^verbatim>\<open>branch\<close>, \<^verbatim>\<open>title\<close>, \<^verbatim>\<open>description\<close>, \<^verbatim>\<open>recommendation\<close>, \<^verbatim>\<open>error\<close>, \<^verbatim>\<open>audit_report\<close>,
  \<^verbatim>\<open>exceptions\<close>, \<^verbatim>\<open>length\<close>) are not defined on any built-in prototype, so nothing is
  inherited under them.
\<close>

fun getField :: "jsval \<Rightarrow> string \<Rightarrow> js_error + jsval" where
  "getField Undefined k = Inl TypeError"
| "getField Null k = Inl TypeError"
| "getField (Obj kvs) k = Inr (case map_of kvs k of Some v \<Rightarrow> v | None \<Rightarrow> Undefined)"
| "getField (Arr xs) k = Inr (if k = ''length'' then Num (of_nat (length xs)) else Undefined)"
| "getField (Str s) k = Inr (if k = ''length'' then Num (of_nat (length s)) else Undefined)"
| "getField v k = Inr Undefined"

subsection \<open>Strings\<close>

text \<open>
  \<^verbatim>\<open>String.prototype.toLowerCase\<close> on code units below 256: \<^verbatim>\<open>A\<close>-\<^verbatim>\<open>Z\<close> and the Latin-1 capitals
  (\<^verbatim>\<open>U+00C0\<close>-\<^verbatim>\<open>U+00DE\<close> without the multiplication sign) move up by 32.
\<close>

definition lower_char :: "char \<Rightarrow> char" where
  "lower_char c =
     (let n = (of_char c :: nat)
      in if (65 \<le> n \<and> n \<le> 90) \<or> (192 \<le> n \<and> n \<le> 222 \<and> n \<noteq> 215)
         then char_of (n + 32) else c)"

definition toLowerCase :: "string \<Rightarrow> string" where
  "toLowerCase s = map lower_char s"

text \<open>
  The method call \<^verbatim>\<open>v.toLowerCase()\<close>: only a string has the method; on a number, a boolean,
  an array or an object the property is not a function and the call throws.
\<close>

fun call_toLowerCase :: "jsval \<Rightarrow> js_error + string" where
  "call_toLowerCase (Str s) = Inr (toLowerCase s)"
| "call_toLowerCase v = Inl TypeError"

section \<open>Plain objects used as counters\<close>

text \<open>
  Both aggregators count in an object literal with \<^verbatim>\<open>c[k] = (c[k] || 0) + 1\<close>.  The object
  inherits from \<^verbatim>\<open>Object.prototype\<close>, so a read of \<^verbatim>\<open>c[k]\<close> finds the own property, else the
  inherited one, else \<^verbatim>\<open>undefined\<close>.  A stored value is a number, or what \<^verbatim>\<open>+ 1\<close> makes of an
  inherited function or object: a string (\<open>Junk\<close>).
\<close>

datatype tally = Count nat | Junk | Undef

type_synonym counts = "(string \<times> tally) list"

definition proto_names :: "string list" where
  "proto_names =
     [''constructor'', ''__proto__'', ''hasOwnProperty'', ''isPrototypeOf'',
      ''propertyIsEnumerable'', ''toLocaleString'', ''toString'', ''valueOf'',
      ''__defineGetter__'', ''__defineSetter__'', ''__lookupGetter__'', ''__lookupSetter__'']"

text \<open>The read \<^verbatim>\<open>c[k]\<close>; an inherited function or object reads as \<open>Junk\<close> (truthy, not a number).\<close>

definition read_prop :: "counts \<Rightarrow> string \<Rightarrow> tally" where
  "read_prop c k =
     (case map_of c k of
        Some t \<Rightarrow> t
      | None \<Rightarrow> if k \<in> set proto_names then Junk else Undef)"

text \<open>
  \<^verbatim>\<open>(t || 0) + 1\<close>: a number goes up by one (\<^verbatim>\<open>0 || 0\<close> is \<^verbatim>\<open>0\<close>), \<^verbatim>\<open>undefined\<close> becomes \<^verbatim>\<open>1\<close>,
  and anything else is concatenated with \<^verbatim>\<open>"1"\<close> into a string.
\<close>

fun incr :: "tally \<Rightarrow> tally" where
  "incr (Count n) = Count (Suc n)"
| "incr Junk = Junk"
| "incr Undef = Count 1"

text \<open>
  The statement \<^verbatim>\<open>c[k] = (c[k] || 0) + 1\<close>.  An assignment to \<^verbatim>\<open>__proto__\<close> runs the setter of
  \<^verbatim>\<open>Object.prototype\<close>, which ignores a value that is neither an object nor \<^verbatim>\<open>null\<close>; the
  value assigned here is always a string, so nothing is stored.  Any other key is created
  at the end of the own properties or updated in place.
\<close>

definition bump :: "counts \<Rightarrow> string \<Rightarrow> counts" where
  "bump c k = (if k = ''__proto__'' then c else AList.update k (incr (read_prop c k)) c)"

section \<open>Severity Aggregator\<close>

text \<open>
  \<^verbatim>\<open>
  function processSeverityData(data) {
      const severityCounts = { high: 0, medium: 0, low: 0, unspecified: 0 };
      data.analysis.findings ?.forEach(finding => {
          const sev = (finding.severity || 'unspecified').toLowerCase();
          severityCounts[sev] = (severityCounts[sev] || 0) + 1;
      });
      return {
          labels: ['High', 'Medium', 'Low', 'Unspecified'],
          values: [severityCounts.high, severityCounts.medium, severityCounts.low,
                   severityCounts.unspecified],
          colors: [...], borderColors: [...]
      };
  }
  \<close>
\<close>

definition severityCounts0 :: counts where
  "severityCounts0 =
     [(''high'', Count 0), (''medium'', Count 0), (''low'', Count 0), (''unspecified'', Count 0)]"

text \<open>\<^verbatim>\<open>(finding.severity || 'unspecified').toLowerCase()\<close>\<close>

definition severity_key :: "jsval \<Rightarrow> js_error + string" where
  "severity_key finding =
     (case getField finding ''severity'' of
        Inl e \<Rightarrow> Inl e
      | Inr s \<Rightarrow> call_toLowerCase (or_else s (Str ''unspecified'')))"

text \<open>The \<^verbatim>\<open>forEach\<close> loop over the findings; an exception in the callback ends it.\<close>

fun count_severities :: "counts \<Rightarrow> jsval list \<Rightarrow> js_error + counts" where
  "count_severities c [] = Inr c"
| "count_severities c (finding # rest) =
     (case severity_key finding of
        Inl e \<Rightarrow> Inl e
      | Inr sev \<Rightarrow> count_severities (bump c sev) rest)"

text \<open>
  \<^verbatim>\<open>x ?.forEach(f)\<close>, with the loop over an array given as \<open>loop\<close>: skipped on \<^verbatim>\<open>null\<close> and
  \<^verbatim>\<open>undefined\<close>; on any other value that is not an array \<^verbatim>\<open>forEach\<close> is not a function.
\<close>

fun optional_forEach :: "jsval \<Rightarrow> (jsval list \<Rightarrow> js_error + 'a) \<Rightarrow> 'a \<Rightarrow> js_error + 'a" where
  "optional_forEach Undefined loop skip = Inr skip"
| "optional_forEach Null loop skip = Inr skip"
| "optional_forEach (Arr xs) loop skip = loop xs"
| "optional_forEach v loop skip = Inl TypeError"

text \<open>A colour of a chart, as the CSS text handed to the chart library.\<close>

datatype color = Css string

text \<open>What the two aggregators return (\<open>values'\<close> is the source's \<^verbatim>\<open>values\<close>).\<close>

record chart_data =
  labels :: "string list"
  values' :: "tally list"
  colors :: "color list"

record severity_data = chart_data +
  borderColors :: "color list"

text \<open>The path \<^verbatim>\<open>data.analysis.name\<close>.\<close>

definition analysis_field :: "jsval \<Rightarrow> string \<Rightarrow> js_error + jsval" where
  "analysis_field data name =
     (case getField data ''analysis'' of
        Inl e \<Rightarrow> Inl e
      | Inr analysis \<Rightarrow> getField analysis name)"

definition processSeverityData :: "jsval \<Rightarrow> js_error + severity_data" where
  "processSeverityData data =
     (case analysis_field data ''findings'' of
        Inl e \<Rightarrow> Inl e
      | Inr findings \<Rightarrow>
     (case optional_forEach findings (count_severities severityCounts0) severityCounts0 of
        Inl e \<Rightarrow> Inl e
      | Inr severityCounts \<Rightarrow>
          Inr \<lparr> labels = [''High'', ''Medium'', ''Low'', ''Unspecified''],
                values' = [read_prop severityCounts ''high'', read_prop severityCounts ''medium'',
                          read_prop severityCounts ''low'', read_prop severityCounts ''unspecified''],
                colors = [Css ''rgba(220,53,69,0.7)'', Css ''rgba(255,193,7,0.7)'',
                          Css ''rgba(25,135,84,0.7)'', Css ''rgba(108,117,125,0.7)''],
                borderColors = [Css ''rgba(220,53,69,1)'', Css ''rgba(255,193,7,1)'',
                                Css ''rgba(25,135,84,1)'', Css ''rgba(108,117,125,1)''] \<rparr>))"

section \<open>What the browser provides\<close>

text \<open>
  The built-in functions the program calls but does not define are parameters of the
  model: \<^verbatim>\<open>JSON.parse\<close> (\<open>None\<close> when it throws its \<^verbatim>\<open>SyntaxError\<close>), \<^verbatim>\<open>JSON.stringify\<close>, the
  decimal text of a number, and the number a string denotes (\<open>None\<close> for \<^verbatim>\<open>NaN\<close>).  Every
  theorem below holds for all of them.
\<close>

record runtime =
  JSON_parse :: "string \<Rightarrow> jsval option"
  JSON_stringify :: "jsval \<Rightarrow> string"
  Number_toString :: "rat \<Rightarrow> string"
  StringToNumber :: "string \<Rightarrow> rat option"

text \<open>
  The conversion of a value to a string, as a template literal, a property key and
  \<^verbatim>\<open>new Error(v)\<close> perform it.  An array is joined with commas, \<^verbatim>\<open>null\<close> and \<^verbatim>\<open>undefined\<close>
  elements giving the empty string.  An object converts through the inherited
  \<^verbatim>\<open>toString\<close> unless it has an own property of that name, which (coming from JSON) is
  not a function: then the conversion throws.
\<close>

fun ToString :: "runtime \<Rightarrow> jsval \<Rightarrow> js_error + string"
  and join :: "runtime \<Rightarrow> jsval list \<Rightarrow> js_error + string" where
  "ToString rt Undefined = Inr ''undefined''"
| "ToString rt Null = Inr ''null''"
| "ToString rt (Bool b) = Inr (if b then ''true'' else ''false'')"
| "ToString rt (Num n) = Inr (Number_toString rt n)"
| "ToString rt (Str s) = Inr s"
| "ToString rt (Arr xs) = join rt xs"
| "ToString rt (Obj kvs) =
     (case map_of kvs ''toString'' of
        Some v \<Rightarrow> Inl TypeError
      | None \<Rightarrow> Inr ''[object Object]'')"
| "join rt [] = Inr []"
| "join rt [x] = (if nullish x then Inr [] else ToString rt x)"
| "join rt (x # y # ys) =
     (case (if nullish x then Inr [] else ToString rt x) of
        Inl e \<Rightarrow> Inl e
      | Inr s \<Rightarrow>
          (case join rt (y # ys) of
             Inl e \<Rightarrow> Inl e
           | Inr t \<Rightarrow> Inr (s @ '','' @ t)))"

text \<open>
  The comparison \<^verbatim>\<open>v > 0\<close>: the operand is converted to a number (\<^verbatim>\<open>undefined\<close> and
  non-numeric strings to \<^verbatim>\<open>NaN\<close>, for which every comparison is false; an array and an
  object through their string form).
\<close>

definition number_gt_zero :: "rat option \<Rightarrow> bool" where
  "number_gt_zero n = (case n of None \<Rightarrow> False | Some q \<Rightarrow> 0 < q)"

fun gt_zero :: "runtime \<Rightarrow> jsval \<Rightarrow> js_error + bool" where
  "gt_zero rt Undefined = Inr False"
| "gt_zero rt Null = Inr False"
| "gt_zero rt (Bool b) = Inr b"
| "gt_zero rt (Num n) = Inr (0 < n)"
| "gt_zero rt (Str s) = Inr (number_gt_zero (StringToNumber rt s))"
| "gt_zero rt v =
     (case ToString rt v of
        Inl e \<Rightarrow> Inl e
      | Inr s \<Rightarrow> Inr (number_gt_zero (StringToNumber rt s)))"

section \<open>Branch Aggregator\<close>

text \<open>
  \<^verbatim>\<open>
  function processBranchData(data) {
      const branchCounts = {};
      data.analysis.participants ?.forEach(p => {
          const branch = p.branch || 'Unspecified';
          branchCounts[branch] = (branchCounts[branch] || 0) + 1;
      });
      const labels = Object.keys(branchCounts);
      return {
          labels: labels,
          values: labels.map(l => branchCounts[l]),
          colors: labels.map((_, i) => `hsla(${(i * 137.508) % 360}, 70%, 60%, 0.7)`)
      };
  }
  \<close>
\<close>

text \<open>
  \<^verbatim>\<open>Object.keys\<close> lists the own keys that are array indices (the decimal numeral, without
  leading zeros, of an integer from 0 to \<open>2\<^sup>3\<^sup>2 - 2\<close>) first, in ascending numeric order, and
  then the other keys in the order of their creation.
\<close>

definition is_digit :: "char \<Rightarrow> bool" where
  "is_digit c = (let n = (of_char c :: nat) in 48 \<le> n \<and> n \<le> 57)"

definition digits_value :: "string \<Rightarrow> int" where
  "digits_value s = foldl (\<lambda>a c. 10 * a + (of_char c - 48)) 0 s"

definition is_array_index :: "string \<Rightarrow> bool" where
  "is_array_index s =
     (case s of
        [] \<Rightarrow> False
      | c # cs \<Rightarrow>
          list_all is_digit s \<and> (if c = CHR ''0'' then cs = [] else True) \<and>
          digits_value s \<le> 4294967294)"

definition own_keys_order :: "string list \<Rightarrow> string list" where
  "own_keys_order ks =
     sort_key digits_value (filter is_array_index ks) @ filter (\<lambda>k. \<not> is_array_index k) ks"

definition Object_keys :: "counts \<Rightarrow> string list" where
  "Object_keys c = own_keys_order (map fst c)"

text \<open>The property key \<^verbatim>\<open>p.branch || 'Unspecified'\<close> of one participant.\<close>

definition branch_key :: "runtime \<Rightarrow> jsval \<Rightarrow> js_error + string" where
  "branch_key rt p =
     (case getField p ''branch'' of
        Inl e \<Rightarrow> Inl e
      | Inr b \<Rightarrow> ToString rt (or_else b (Str ''Unspecified'')))"

fun count_branches :: "runtime \<Rightarrow> counts \<Rightarrow> jsval list \<Rightarrow> js_error + counts" where
  "count_branches rt c [] = Inr c"
| "count_branches rt c (p # rest) =
     (case branch_key rt p of
        Inl e \<Rightarrow> Inl e
      | Inr branch \<Rightarrow> count_branches rt (bump c branch) rest)"

text \<open>
  The colour of the bucket at index \<open>i\<close> is the template
  \<^verbatim>\<open>`hsla(${(i * 137.508) % 360}, 70%, 60%, 0.7)`\<close>, whose hue is computed in IEEE 754 double
  precision.  A double is kept as the rational it denotes.  \<open>double_of\<close> rounds a rational
  to the nearest double, ties to even, with a 53-bit significand (overflow and subnormal
  numbers do not arise: the products here lie between 137 and \<open>2\<^sup>4\<^sup>0\<close>).  The literal
  \<^verbatim>\<open>137.508\<close> denotes \<open>double_of (137508 / 1000)\<close>, the index is an integer and so exact, the
  product is rounded once, and \<^verbatim>\<open>%\<close> (the remainder of the truncated quotient) is exact.
\<close>

definition round_half_even :: "rat \<Rightarrow> int" where
  "round_half_even x =
     (let f = \<lfloor>x\<rfloor>; d = x - of_int f
      in if d < 1 / 2 then f else if 1 / 2 < d then f + 1 else if even f then f else f + 1)"

definition pow2 :: "int \<Rightarrow> rat" where
  "pow2 e = (if 0 \<le> e then 2 ^ nat e else 1 / 2 ^ nat (- e))"

text \<open>The binary exponent \<open>\<lfloor>log\<^sub>2 x\<rfloor>\<close> of a positive rational.\<close>

definition exponent_of :: "rat \<Rightarrow> int" where
  "exponent_of x = (if 1 \<le> x then bitlen \<lfloor>x\<rfloor> - 1 else - bitlen (\<lceil>1 / x\<rceil> - 1))"

definition double_of :: "rat \<Rightarrow> rat" where
  "double_of x =
     (if x = 0 then 0
      else (let ulp = pow2 (exponent_of \<bar>x\<bar> - 52)
            in sgn x * of_int (round_half_even (\<bar>x\<bar> / ulp)) * ulp))"

text \<open>\<^verbatim>\<open>a % b\<close> on numbers.\<close>

definition js_rem :: "rat \<Rightarrow> rat \<Rightarrow> rat" where
  "js_rem a b = a - b * of_int (if 0 \<le> a / b then \<lfloor>a / b\<rfloor> else \<lceil>a / b\<rceil>)"

text \<open>\<^verbatim>\<open>(i * 137.508) % 360\<close>\<close>

definition hue_at :: "rat \<Rightarrow> rat" where
  "hue_at i = js_rem (double_of (i * double_of (137508 / 1000))) 360"

definition hue :: "nat \<Rightarrow> rat" where
  "hue i = hue_at (of_nat i)"

text \<open>\<^verbatim>\<open>`hsla(${hue}, 70%, 60%, 0.7)`\<close>\<close>

definition branch_color :: "runtime \<Rightarrow> nat \<Rightarrow> color" where
  "branch_color rt i = Css (''hsla('' @ Number_toString rt (hue i) @ '', 70%, 60%, 0.7)'')"

definition processBranchData :: "runtime \<Rightarrow> jsval \<Rightarrow> js_error + chart_data" where
  "processBranchData rt data =
     (case analysis_field data ''participants'' of
        Inl e \<Rightarrow> Inl e
      | Inr participants \<Rightarrow>
     (case optional_forEach participants (count_branches rt []) [] of
        Inl e \<Rightarrow> Inl e
      | Inr branchCounts \<Rightarrow>
          (let labels = Object_keys branchCounts
           in Inr \<lparr> labels = labels,
                     values' = map (read_prop branchCounts) labels,
                     colors = map (branch_color rt) [0..<length labels] \<rparr>)))"

section \<open>Result Renderer and Chart Presenter\<close>

text \<open>
  The markup that \<^verbatim>\<open>displayResults\<close> writes is kept as data: the text of the summary card,
  and one card per finding or the placeholder.  A chart slot holds what the chart was
  built from; \<^verbatim>\<open>destroy()\<close> leaves the destroyed object in the variable.
\<close>

record card =
  badge :: string
  number :: nat
  title :: string
  description :: string
  recommendation :: "string option"

datatype findings_panel = Cards "card list" | NoFindings

datatype 'a slot = Vacant | Live 'a | Destroyed 'a

record view =
  executiveSummary :: "string option"
  detailedFindings :: "findings_panel option"
  severityChart :: "severity_data slot"
  branchChart :: "chart_data slot"

text \<open>\<^verbatim>\<open>if (chart) chart.destroy();\<close>\<close>

fun destroy :: "'a slot \<Rightarrow> 'a slot" where
  "destroy (Live c) = Destroyed c"
| "destroy s = s"

text \<open>\<^verbatim>\<open>s.includes(sub)\<close>\<close>

fun str_includes :: "string \<Rightarrow> string \<Rightarrow> bool" where
  "str_includes [] sub = (sub = [])"
| "str_includes (c # cs) sub = (take (length sub) (c # cs) = sub \<or> str_includes cs sub)"

text \<open>
  \<^verbatim>\<open>
  function getSeverityBadgeClass(severity) {
      const sev = (severity || '').toLowerCase();
      if (sev.includes('high')) return 'danger';
      if (sev.includes('medium')) return 'warning';
      if (sev.includes('low')) return 'success';
      return 'secondary';
  }
  \<close>
\<close>

definition getSeverityBadgeClass :: "jsval \<Rightarrow> js_error + string" where
  "getSeverityBadgeClass severity =
     (case call_toLowerCase (or_else severity (Str [])) of
        Inl e \<Rightarrow> Inl e
      | Inr sev \<Rightarrow>
          Inr (if str_includes sev ''high'' then ''danger''
               else if str_includes sev ''medium'' then ''warning''
               else if str_includes sev ''low'' then ''success''
               else ''secondary''))"

text \<open>The template of one finding, its holes filled from left to right.\<close>

definition finding_card :: "runtime \<Rightarrow> nat \<Rightarrow> jsval \<Rightarrow> js_error + card" where
  "finding_card rt index finding =
     (case getField finding ''severity'' of Inl e \<Rightarrow> Inl e | Inr sv \<Rightarrow>
     (case getSeverityBadgeClass sv of Inl e \<Rightarrow> Inl e | Inr cls \<Rightarrow>
     (case getField finding ''title'' of Inl e \<Rightarrow> Inl e | Inr t \<Rightarrow>
     (case ToString rt (or_else t (Str ''Untitled Finding'')) of Inl e \<Rightarrow> Inl e | Inr t' \<Rightarrow>
     (case getField finding ''description'' of Inl e \<Rightarrow> Inl e | Inr d \<Rightarrow>
     (case ToString rt (or_else d (Str ''No description provided'')) of Inl e \<Rightarrow> Inl e | Inr d' \<Rightarrow>
     (case getField finding ''recommendation'' of Inl e \<Rightarrow> Inl e | Inr r \<Rightarrow>
     (case (if truthy r then map_sum id Some (ToString rt r) else Inr None) of
        Inl e \<Rightarrow> Inl e
      | Inr r' \<Rightarrow>
          Inr \<lparr> badge = cls, number = index + 1, title = t', description = d',
                recommendation = r' \<rparr>))))))))"

fun finding_cards :: "runtime \<Rightarrow> nat \<Rightarrow> jsval list \<Rightarrow> js_error + card list" where
  "finding_cards rt index [] = Inr []"
| "finding_cards rt index (finding # rest) =
     (case finding_card rt index finding of
        Inl e \<Rightarrow> Inl e
      | Inr c \<Rightarrow>
          (case finding_cards rt (Suc index) rest of
             Inl e \<Rightarrow> Inl e
           | Inr cs \<Rightarrow> Inr (c # cs)))"

text \<open>\<^verbatim>\<open>x.forEach(f)\<close>: only an array has the method.\<close>

fun call_forEach :: "jsval \<Rightarrow> (jsval list \<Rightarrow> js_error + 'a) \<Rightarrow> js_error + 'a" where
  "call_forEach (Arr xs) loop = loop xs"
| "call_forEach v loop = Inl TypeError"

text \<open>
  \<^verbatim>\<open>
  if (data.analysis.findings ?.length > 0) {
      data.analysis.findings.forEach((finding, index) => { findingsHTML += ... });
  } else {
      findingsHTML += '<p class="text-muted">No findings available</p>';
  }
  \<close>
\<close>

definition render_findings :: "runtime \<Rightarrow> jsval \<Rightarrow> js_error + findings_panel" where
  "render_findings rt analysis =
     (case getField analysis ''findings'' of Inl e \<Rightarrow> Inl e | Inr findings \<Rightarrow>
     (case (if nullish findings then Inr False
            else (case getField findings ''length'' of
                    Inl e \<Rightarrow> Inl e
                  | Inr n \<Rightarrow> gt_zero rt n)) of
        Inl e \<Rightarrow> Inl e
      | Inr nonempty \<Rightarrow>
          if nonempty
          then map_sum id Cards (call_forEach findings (finding_cards rt 0))
          else Inr NoFindings))"

text \<open>
  \<^verbatim>\<open>generateCharts\<close> runs both aggregators and then builds the two charts; the chart library
  is taken to accept what it is given.
\<close>

definition generateCharts :: "runtime \<Rightarrow> jsval \<Rightarrow> js_error + severity_data \<times> chart_data" where
  "generateCharts rt data =
     (case processSeverityData data of Inl e \<Rightarrow> Inl e | Inr severityData \<Rightarrow>
     (case processBranchData rt data of Inl e \<Rightarrow> Inl e | Inr branchData \<Rightarrow>
        Inr (severityData, branchData)))"

text \<open>
  \<^verbatim>\<open>displayResults(data)\<close> returns the view it has reached and the exception that stopped
  it, if any: what it has written before a throw stays written.
\<close>

definition displayResults :: "runtime \<Rightarrow> jsval \<Rightarrow> view \<Rightarrow> view \<times> js_error option" where
  "displayResults rt data v0 =
     (let v1 = v0\<lparr> severityChart := destroy (severityChart v0),
                    branchChart := destroy (branchChart v0) \<rparr>
      in
     (case getField data ''analysis'' of Inl e \<Rightarrow> (v1, Some e) | Inr analysis \<Rightarrow>
     (case getField analysis ''summary'' of Inl e \<Rightarrow> (v1, Some e) | Inr summary \<Rightarrow>
     (case ToString rt (or_else summary (Str ''No summary available'')) of
        Inl e \<Rightarrow> (v1, Some e)
      | Inr text \<Rightarrow>
     (let v2 = v1\<lparr> executiveSummary := Some text \<rparr>
      in
     (case render_findings rt analysis of Inl e \<Rightarrow> (v2, Some e) | Inr panel \<Rightarrow>
     (let v3 = v2\<lparr> detailedFindings := Some panel \<rparr>
      in
     (case generateCharts rt data of
        Inl e \<Rightarrow> (v3, Some e)
      | Inr (severityData, branchData) \<Rightarrow>
          (v3\<lparr> severityChart := Live severityData, branchChart := Live branchData \<rparr>,
           None)))))))))"

section \<open>Session Controller\<close>

text \<open>
  The state the event handlers share: the variable \<^verbatim>\<open>currentAnalysis\<close> (initially \<^verbatim>\<open>null\<close>),
  the \<^verbatim>\<open>previousAnalysis\<close> entry of local storage (\<open>None\<close> when \<^verbatim>\<open>getItem\<close> returns \<^verbatim>\<open>null\<close>),
  the text area, the rendered panels and charts, whether the results section still
  carries the class \<^verbatim>\<open>d-none\<close>, the alerts that \<^verbatim>\<open>showAlert\<close> has put at the top of the
  results section (newest first), the two buttons, and a log of the requests sent and
  the files offered for download.  Local storage is taken to accept every write.
\<close>

record button =
  busy :: bool
  caption :: string

text \<open>
  The text of an alert: a fixed message, or the template \<^verbatim>\<open>`${prefix}: ${error.message}`\<close>
  for a caught exception.
\<close>

datatype alert_text = Message string | Failure string js_error

record session =
  currentAnalysis :: jsval
  storage :: "string option"
  textarea :: string
  panels :: view
  resultsHidden :: bool
  alerts :: "(alert_text \<times> string) list"
  analyzeBtn :: button
  generateReportBtn :: button
  requests :: "(string \<times> string) list"
  downloads :: "(string \<times> string) list"

text \<open>
  What comes back from \<^verbatim>\<open>fetch\<close>: the promise rejects, or a response arrives with its \<^verbatim>\<open>ok\<close>
  flag and its body (for \<^verbatim>\<open>/analyze\<close> the result of \<^verbatim>\<open>response.json()\<close>, \<open>None\<close> when the body
  is not JSON; for \<^verbatim>\<open>/generate-report\<close> the blob).  A handler below gives the state once
  its awaited promises have settled.
\<close>

datatype 'b reply = Rejected | Response bool 'b

definition showAlert :: "alert_text \<Rightarrow> string \<Rightarrow> session \<Rightarrow> session" where
  "showAlert message type st = st\<lparr> alerts := (message, type) # alerts st \<rparr>"

definition setLoadingState :: "bool \<Rightarrow> string \<Rightarrow> button" where
  "setLoadingState isLoading text = \<lparr> busy = isLoading, caption = text \<rparr>"

text \<open>\<^verbatim>\<open>String.prototype.trim\<close> on code units below 256.\<close>

definition is_space :: "char \<Rightarrow> bool" where
  "is_space c = (of_char c \<in> set [9, 10, 11, 12, 13, 32, 160 :: nat])"

definition trim :: "string \<Rightarrow> string" where
  "trim s = rev (dropWhile is_space (rev (dropWhile is_space s)))"

text \<open>\<^verbatim>\<open>auditData.audit_report ?.exceptions\<close>\<close>

definition exceptions_of :: "jsval \<Rightarrow> js_error + jsval" where
  "exceptions_of auditData =
     (case getField auditData ''audit_report'' of
        Inl e \<Rightarrow> Inl e
      | Inr audit_report \<Rightarrow>
          if nullish audit_report then Inr Undefined
          else getField audit_report ''exceptions'')"

text \<open>
  The \<^verbatim>\<open>try\<close> block of the Analyze handler (lines 30-53), with the state it reaches and
  the exception it throws, if any.
  \<^verbatim>\<open>
  const auditData = JSON.parse(auditDataText);
  if (!auditData.audit_report ?.exceptions) {
      showAlert('JSON must contain audit_report with exceptions array', 'danger');
      return;
  }
  setLoadingState(analyzeBtn, true, 'Analyzing...');
  const response = await fetch('/analyze', { method: 'POST', ..., body: auditDataText });
  const data = await response.json();
  if (!response.ok) throw new Error(data.error || 'Analysis failed');
  currentAnalysis = data;
  localStorage.setItem('previousAnalysis', JSON.stringify(data));
  displayResults(data);
  resultsSection.classList.remove('d-none');
  \<close>
\<close>

definition analyze_try ::
  "runtime \<Rightarrow> jsval option reply \<Rightarrow> string \<Rightarrow> session \<Rightarrow> session \<times> js_error option" where
  "analyze_try rt reply auditDataText st =
     (case JSON_parse rt auditDataText of
        None \<Rightarrow> (st, Some SyntaxError)
      | Some auditData \<Rightarrow>
     (case exceptions_of auditData of
        Inl e \<Rightarrow> (st, Some e)
      | Inr exceptions \<Rightarrow>
          if \<not> truthy exceptions
          then (showAlert (Message ''JSON must contain audit_report with exceptions array'')
                  ''danger'' st, None)
          else
     (let st1 = st\<lparr> analyzeBtn := setLoadingState True ''Analyzing...'' \<rparr>;
          st2 = st1\<lparr> requests := requests st1 @ [(''/analyze'', auditDataText)] \<rparr>
      in
     (case reply of
        Rejected \<Rightarrow> (st2, Some TypeError)
      | Response ok body \<Rightarrow>
     (case body of
        None \<Rightarrow> (st2, Some SyntaxError)
      | Some data \<Rightarrow>
          if \<not> ok
          then (case getField data ''error'' of
                  Inl e \<Rightarrow> (st2, Some e)
                | Inr msg \<Rightarrow>
                    (case ToString rt (or_else msg (Str ''Analysis failed'')) of
                       Inl e \<Rightarrow> (st2, Some e)
                     | Inr m \<Rightarrow> (st2, Some (Error m))))
          else
     (let st3 = st2\<lparr> currentAnalysis := data,
                      storage := Some (JSON_stringify rt data) \<rparr>
      in
     (case displayResults rt data (panels st3) of
        (v, Some e) \<Rightarrow> (st3\<lparr> panels := v \<rparr>, Some e)
      | (v, None) \<Rightarrow> (st3\<lparr> panels := v, resultsHidden := False \<rparr>, None))))))))"

text \<open>
  The click handler of the Analyze button: the \<^verbatim>\<open>try\<close> block on the trimmed text, then
  \<^verbatim>\<open>
  } catch (error) {
      showAlert(`Analysis failed: ${error.message}`, 'danger');
  } finally {
      setLoadingState(analyzeBtn, false, 'Analyze Data');
  }
  \<close>
\<close>

definition analyze_click :: "runtime \<Rightarrow> jsval option reply \<Rightarrow> session \<Rightarrow> session" where
  "analyze_click rt reply st =
     (case analyze_try rt reply (trim (textarea st)) st of
        (st', thrown) \<Rightarrow>
          (let st'' = (case thrown of
                         None \<Rightarrow> st'
                       | Some error \<Rightarrow> showAlert (Failure ''Analysis failed'' error) ''danger'' st')
           in st''\<lparr> analyzeBtn := setLoadingState False ''Analyze Data'' \<rparr>))"

text \<open>
  The click handler of the Generate Report button (lines 62-87).
  \<^verbatim>\<open>
  if (!currentAnalysis) {
      showAlert('No analysis results available', 'warning');
      return;
  }
  try {
      setLoadingState(generateReportBtn, true, 'Generating...');
      const response = await fetch('/generate-report', { method: 'POST', ...,
          body: JSON.stringify(currentAnalysis) });
      if (!response.ok) throw new Error('Report generation failed');
      const blob = await response.blob();
      downloadFile(blob, 'audit_report.docx');
  } catch (error) {
      showAlert(`Report generation failed: ${error.message}`, 'danger');
  } finally {
      setLoadingState(generateReportBtn, false, 'Generate Word Report');
  }
  \<close>
\<close>

definition generateReport_click :: "runtime \<Rightarrow> string reply \<Rightarrow> session \<Rightarrow> session" where
  "generateReport_click rt reply st =
     (if \<not> truthy (currentAnalysis st)
      then showAlert (Message ''No analysis results available'') ''warning'' st
      else
     (let st1 = st\<lparr> generateReportBtn := setLoadingState True ''Generating...'' \<rparr>;
          st2 = st1\<lparr> requests := requests st1 @
                          [(''/generate-report'', JSON_stringify rt (currentAnalysis st1))] \<rparr>;
          st3 = (case reply of
                   Rejected \<Rightarrow>
                     showAlert (Failure ''Report generation failed'' TypeError) ''danger'' st2
                 | Response ok blob \<Rightarrow>
                     if \<not> ok
                     then showAlert (Failure ''Report generation failed''
                                       (Error ''Report generation failed'')) ''danger'' st2
                     else st2\<lparr> downloads := downloads st2 @ [(''audit_report.docx'', blob)] \<rparr>)
      in st3\<lparr> generateReportBtn := setLoadingState False ''Generate Word Report'' \<rparr>))"

text \<open>
  Page load (lines 14-25): the variables are initialised and a saved analysis, if any,
  is restored.  Nothing catches an exception here.
  \<^verbatim>\<open>
  let severityChart = null;
  let branchChart = null;
  let currentAnalysis = null;
  const savedAnalysis = localStorage.getItem('previousAnalysis');
  if (savedAnalysis) {
      const data = JSON.parse(savedAnalysis);
      currentAnalysis = data;
      displayResults(data);
      resultsSection.classList.remove('d-none');
  }
  \<close>
\<close>

definition fresh_page :: "string option \<Rightarrow> session" where
  "fresh_page saved =
     \<lparr> currentAnalysis = Null,
       storage = saved,
       textarea = [],
       panels = \<lparr> executiveSummary = None, detailedFindings = None,
                  severityChart = Vacant, branchChart = Vacant \<rparr>,
       resultsHidden = True,
       alerts = [],
       analyzeBtn = \<lparr> busy = False, caption = ''Analyze Data'' \<rparr>,
       generateReportBtn = \<lparr> busy = False, caption = ''Generate Word Report'' \<rparr>,
       requests = [],
       downloads = [] \<rparr>"

definition restore :: "runtime \<Rightarrow> session \<Rightarrow> session \<times> js_error option" where
  "restore rt st =
     (case storage st of
        None \<Rightarrow> (st, None)
      | Some savedAnalysis \<Rightarrow>
          if savedAnalysis = [] then (st, None)
          else
     (case JSON_parse rt savedAnalysis of
        None \<Rightarrow> (st, Some SyntaxError)
      | Some data \<Rightarrow>
     (let st1 = st\<lparr> currentAnalysis := data \<rparr>
      in
     (case displayResults rt data (panels st1) of
        (v, Some e) \<Rightarrow> (st1\<lparr> panels := v \<rparr>, Some e)
      | (v, None) \<Rightarrow> (st1\<lparr> panels := v, resultsHidden := False \<rparr>, None)))))"

definition page_load :: "runtime \<Rightarrow> string option \<Rightarrow> session \<times> js_error option" where
  "page_load rt saved = restore rt (fresh_page saved)"

section \<open>Notions used in the statements\<close>

fun is_string :: "jsval \<Rightarrow> bool" where
  "is_string (Str s) = True"
| "is_string v = False"

text \<open>
  A finding the aggregator can read: not \<^verbatim>\<open>null\<close>, and its \<^verbatim>\<open>severity\<close> absent, falsy or a
  string.  On any other element the callback throws a \<^verbatim>\<open>TypeError\<close>.
\<close>

definition finding_ok :: "jsval \<Rightarrow> bool" where
  "finding_ok f =
     (case getField f ''severity'' of
        Inl e \<Rightarrow> False
      | Inr v \<Rightarrow> if truthy v then is_string v else True)"

text \<open>The severity string of a finding, empty when there is none.\<close>

definition severity_text :: "jsval \<Rightarrow> string" where
  "severity_text f = (case getField f ''severity'' of Inr (Str s) \<Rightarrow> s | _ \<Rightarrow> [])"


text \<open>
  The key a severity string is counted under: \<^verbatim>\<open>unspecified\<close> for the empty string (no
  severity), else its lower-case form.  Only the four keys of \<open>bucket_labels\<close> are shown.
\<close>

definition counted_key :: "string \<Rightarrow> string" where
  "counted_key sev = (if sev = [] then ''unspecified'' else toLowerCase sev)"




text \<open>The distinct elements of a list, in the order of their first occurrence.\<close>

fun first_seen :: "'a list \<Rightarrow> 'a list" where
  "first_seen [] = []"
| "first_seen (x # xs) = x # removeAll x (first_seen xs)"

text \<open>An analysis result that carries just the given participants.\<close>

definition with_participants :: "jsval \<Rightarrow> jsval" where
  "with_participants participants = Obj [(''analysis'', Obj [(''participants'', participants)])]"

text \<open>
  Sample data for the closed examples: the documents of the specification's examples, and
  a runtime that agrees with the browser's \<^verbatim>\<open>JSON.parse\<close> and \<^verbatim>\<open>JSON.stringify\<close> on them
  (any other text does not parse), and prints the first four hues as the browser does.
  It is used only to instantiate theorems, all of which hold for every runtime.
\<close>

definition sample_report_text :: string where
  \<open>sample_report_text = ''{"audit_report":{"exceptions":[{"severity":"High"}]}}''\<close>

definition sample_report :: jsval where
  "sample_report =
     Obj [(''audit_report'', Obj [(''exceptions'', Arr [Obj [(''severity'', Str ''High'')]])])]"

definition empty_report_text :: string where
  \<open>empty_report_text = ''{"audit_report":{"exceptions":[]}}''\<close>

definition empty_report :: jsval where
  "empty_report = Obj [(''audit_report'', Obj [(''exceptions'', Arr [])])]"

definition sample_analysis_text :: string where
  \<open>sample_analysis_text =
     ''{"analysis":{"summary":"OK","findings":[{"severity":"medium"}],"participants":[{"branch":"NYC"}]}}''\<close>

definition sample_analysis :: jsval where
  "sample_analysis =
     Obj [(''analysis'',
           Obj [(''summary'', Str ''OK''),
                (''findings'', Arr [Obj [(''severity'', Str ''medium'')]]),
                (''participants'', Arr [Obj [(''branch'', Str ''NYC'')]])])]"

definition example_parse :: "string \<Rightarrow> jsval option" where
  \<open>example_parse =
     map_of [(sample_report_text, sample_report),
             (empty_report_text, empty_report),
             (''{"audit_report":{}}'', Obj [(''audit_report'', Obj [])]),
             (sample_analysis_text, sample_analysis),
             (''{"error":"Model unavailable"}'', Obj [(''error'', Str ''Model unavailable'')]),
             (''{}'', Obj []),
             (''null'', Null)]\<close>

definition example_stringify :: "jsval \<Rightarrow> string" where
  "example_stringify v =
     (case map_of [(sample_analysis, sample_analysis_text), (Obj [], ''{}''), (Null, ''null'')] v of
        Some text \<Rightarrow> text
      | None \<Rightarrow> [])"

definition example_number_text :: "rat \<Rightarrow> string" where
  "example_number_text n =
     (case map_of [(0, ''0''), (hue 1, ''137.508''), (hue 2, ''275.016''), (hue 3, ''52.524'')] n of
        Some text \<Rightarrow> text
      | None \<Rightarrow> [])"

definition example_runtime :: runtime where
  "example_runtime =
     \<lparr> JSON_parse = example_parse, JSON_stringify = example_stringify,
       Number_toString = example_number_text, StringToNumber = (\<lambda>s. None) \<rparr>"

text \<open>Whether a parsed document contains the nested field \<^verbatim>\<open>audit_report.exceptions\<close>.\<close>

definition has_exceptions_field :: "jsval \<Rightarrow> bool" where
  "has_exceptions_field v =
     (case v of
        Obj kvs \<Rightarrow>
          (case map_of kvs ''audit_report'' of
             Some (Obj kvs') \<Rightarrow> (case map_of kvs' ''exceptions'' of Some e \<Rightarrow> True | None \<Rightarrow> False)
           | _ \<Rightarrow> False)
      | _ \<Rightarrow> False)"

text \<open>
  The alerts the user can see.  \<^verbatim>\<open>showAlert\<close> puts every alert inside \<^verbatim>\<open>#resultsSection\<close>, and
  that section is not displayed while it carries the class \<^verbatim>\<open>d-none\<close> (the page starts with
  it; only a successful render removes it).
\<close>

definition visible_alerts :: "session \<Rightarrow> (alert_text \<times> string) list" where
  "visible_alerts st = (if resultsHidden st then [] else alerts st)"

text \<open>A freshly loaded page with nothing saved and the given text in the text area.\<close>

definition typed :: "string \<Rightarrow> session" where
  "typed text = (fresh_page None)\<lparr> textarea := text \<rparr>"

text \<open>The page after the sample report has been analysed successfully.\<close>

definition showing_sample :: session where
  "showing_sample =
     analyze_click example_runtime (Response True (Some sample_analysis))
       (typed sample_report_text)"

section \<open>Properties of the Severity Aggregator\<close>

lemma read_prop_bump:
  "read_prop (bump c k) k' =
     (if k = k' \<and> k \<noteq> ''__proto__'' then incr (read_prop c k) else read_prop c k')"
  by (simp add: bump_def read_prop_def AList.update_conv')



lemma toLowerCase_unspecified: "toLowerCase ''unspecified'' = ''unspecified''"
  by code_simp

lemma severity_key_ok: "finding_ok f \<Longrightarrow> severity_key f = Inr (counted_key (severity_text f))"
  by (cases "getField f ''severity''"; cases "projr (getField f ''severity'')")
     (auto simp: finding_ok_def severity_text_def severity_key_def or_else_def counted_key_def
        toLowerCase_unspecified split: if_splits)

lemma severity_key_not_ok: "\<not> finding_ok f \<Longrightarrow> severity_key f = Inl TypeError"
  by (cases "getField f ''severity''"; cases "projr (getField f ''severity'')"; cases f)
     (auto simp: finding_ok_def severity_key_def or_else_def split: if_splits)


lemma count_severities_throws:
  "\<not> list_all finding_ok fs \<Longrightarrow> count_severities c fs = Inl TypeError"
proof (induction fs arbitrary: c)
  case Nil
  then show ?case by simp
next
  case (Cons f fs)
  then show ?case
    by (cases "finding_ok f") (auto simp: severity_key_ok severity_key_not_ok)
qed



lemma severity_throws:
  assumes "analysis_field data ''findings'' = Inr (Arr fs)" and "\<not> list_all finding_ok fs"
  shows "processSeverityData data = Inl TypeError"
  using assms by (simp add: processSeverityData_def count_severities_throws)











section \<open>Properties of the hue computation\<close>

lemma round_half_even_error: "\<bar>of_int (round_half_even x) - x\<bar> \<le> 1 / 2"
proof -
  have "of_int \<lfloor>x\<rfloor> \<le> x" "x < of_int \<lfloor>x\<rfloor> + 1"
    by linarith+
  then show ?thesis
    by (auto simp: round_half_even_def Let_def)
qed

lemma round_half_even_nonneg: "0 \<le> x \<Longrightarrow> 0 \<le> round_half_even x"
  by (auto simp: round_half_even_def Let_def)

lemma pow2_pos: "0 < pow2 e"
  by (simp add: pow2_def)

lemma pow2_shift: "0 \<le> e \<Longrightarrow> pow2 (e - 52) = 2 ^ nat e / 2 ^ 52"
proof (cases "52 \<le> e")
  case True
  then have "nat e = nat (e - 52) + 52" by simp
  then have "(2::rat) ^ nat e = 2 ^ nat (e - 52) * 2 ^ 52"
    by (metis power_add)
  with True show ?thesis by (simp add: pow2_def)
next
  case False
  assume "0 \<le> e"
  with False have "52 = nat (52 - e) + nat e" by simp
  then have "(2::rat) ^ 52 = 2 ^ nat (52 - e) * 2 ^ nat e"
    by (metis power_add)
  then have "(2::rat) ^ nat e / 2 ^ 52 = 2 ^ nat e / (2 ^ nat (52 - e) * 2 ^ nat e)"
    by (simp only:)
  also have "\<dots> = 1 / 2 ^ nat (52 - e)"
    by simp
  finally show ?thesis
    using False by (simp only: pow2_def) simp
qed

lemma exponent_of_bound:
  assumes "1 \<le> x"
  shows "0 \<le> exponent_of x" and "2 ^ nat (exponent_of x) \<le> x"
proof -
  from assms have f: "0 < \<lfloor>x\<rfloor>" by simp
  then have "1 \<le> bitlen \<lfloor>x\<rfloor>"
    by (simp add: bitlen_alt_def)
  with assms show "0 \<le> exponent_of x"
    by (simp add: exponent_of_def)
  from bitlen_bounds [OF f] have "(2::int) ^ nat (bitlen \<lfloor>x\<rfloor> - 1) \<le> \<lfloor>x\<rfloor>"
    by simp
  then have "(of_int (2 ^ nat (bitlen \<lfloor>x\<rfloor> - 1)) :: rat) \<le> of_int \<lfloor>x\<rfloor>"
    by (simp only: of_int_le_iff)
  also have "\<dots> \<le> x" by simp
  finally show "2 ^ nat (exponent_of x) \<le> x"
    using assms by (simp add: exponent_of_def)
qed

lemma double_of_error:
  assumes "1 \<le> x"
  shows "\<bar>double_of x - x\<bar> \<le> x / 2 ^ 53" and "0 \<le> double_of x"
proof -
  let ?u = "pow2 (exponent_of x - 52)"
  from assms have x: "x \<noteq> 0" "\<bar>x\<bar> = x" "sgn x = 1" by auto
  have u: "0 < ?u" by (rule pow2_pos)
  have d: "double_of x = of_int (round_half_even (x / ?u)) * ?u"
    using x by (simp add: double_of_def Let_def)
  have "double_of x - x = (of_int (round_half_even (x / ?u)) - x / ?u) * ?u"
    using u by (simp add: d field_simps)
  then have "\<bar>double_of x - x\<bar> = \<bar>of_int (round_half_even (x / ?u)) - x / ?u\<bar> * ?u"
    using u by (simp add: abs_mult)
  also have "\<dots> \<le> 1 / 2 * ?u"
    using u round_half_even_error [of "x / ?u"] by (intro mult_right_mono) auto
  also have "\<dots> = 2 ^ nat (exponent_of x) / 2 ^ 53"
    using exponent_of_bound(1) [OF assms] by (simp add: pow2_shift)
  also have "\<dots> \<le> x / 2 ^ 53"
    using exponent_of_bound(2) [OF assms] by (simp add: divide_right_mono)
  finally show "\<bar>double_of x - x\<bar> \<le> x / 2 ^ 53" .
  from assms u have "0 \<le> x / ?u" by simp
  then show "0 \<le> double_of x"
    using u round_half_even_nonneg [of "x / ?u"] by (simp add: d)
qed

lemma js_rem_nonneg:
  assumes "0 \<le> a" and "0 < b"
  shows "0 \<le> js_rem a b" and "js_rem a b < b" and "a = of_int \<lfloor>a / b\<rfloor> * b + js_rem a b"
proof -
  from assms have q: "0 \<le> a / b" by simp
  then have r: "js_rem a b = a - b * of_int \<lfloor>a / b\<rfloor>"
    by (simp add: js_rem_def)
  have f: "of_int \<lfloor>a / b\<rfloor> \<le> a / b" "a / b < of_int \<lfloor>a / b\<rfloor> + 1"
    by linarith+
  have "of_int \<lfloor>a / b\<rfloor> * b \<le> a"
    using assms(2) f(1) by (simp only: pos_le_divide_eq)
  moreover have "a < (of_int \<lfloor>a / b\<rfloor> + 1) * b"
    using assms(2) f(2) by (simp only: pos_divide_less_eq)
  ultimately have "of_int \<lfloor>a / b\<rfloor> * b \<le> a" "a < (of_int \<lfloor>a / b\<rfloor> + 1) * b"
    by simp_all
  then show "0 \<le> js_rem a b" "js_rem a b < b"
    by (simp_all add: r algebra_simps)
  show "a = of_int \<lfloor>a / b\<rfloor> * b + js_rem a b"
    by (simp add: r)
qed

lemma golden_angle_error:
  "double_of (137508 / 1000) / 2 ^ 53 + \<bar>double_of (137508 / 1000) - 137508 / 1000\<bar> \<le>
   (137508 / 1000) / 2 ^ 52 \<and> 1 \<le> double_of (137508 / 1000)"
  by code_simp

text \<open>The hue of an index: the exact product up to rounding, reduced modulo 360.\<close>

lemma hue_meaning:
  "\<exists>q k. \<bar>q - of_nat i * (137508 / 1000)\<bar> \<le> of_nat i * (137508 / 1000) / 2 ^ 52 \<and>
         q = of_int k * 360 + hue i \<and> 0 \<le> hue i \<and> hue i < 360"
proof (cases "i = 0")
  case True
  have "hue 0 = 0" by code_simp
  with True show ?thesis
    by (intro exI [of _ 0]) simp
next
  case False
  let ?c = "137508 / 1000 :: rat"
  let ?y = "of_nat i * double_of ?c"
  let ?q = "double_of ?y"
  from False have i: "(1::rat) \<le> of_nat i" by simp
  with golden_angle_error have y: "1 \<le> ?y"
    by (metis mult_mono' mult_1 zero_le_one)
  from double_of_error [OF y] have e: "\<bar>?q - ?y\<bar> \<le> ?y / 2 ^ 53" and q: "0 \<le> ?q"
    by simp_all
  have "\<bar>?q - of_nat i * ?c\<bar> \<le> \<bar>?q - ?y\<bar> + of_nat i * \<bar>double_of ?c - ?c\<bar>"
  proof -
    have "?q - of_nat i * ?c = (?q - ?y) + of_nat i * (double_of ?c - ?c)"
      by (simp add: algebra_simps)
    then have "\<bar>?q - of_nat i * ?c\<bar> \<le> \<bar>?q - ?y\<bar> + \<bar>of_nat i * (double_of ?c - ?c)\<bar>"
      by (metis abs_triangle_ineq)
    then show ?thesis by (simp add: abs_mult)
  qed
  also have "\<dots> \<le> of_nat i * (double_of ?c / 2 ^ 53 + \<bar>double_of ?c - ?c\<bar>)"
    using e by (simp add: algebra_simps)
  also have "\<dots> \<le> of_nat i * (?c / 2 ^ 52)"
    using golden_angle_error by (intro mult_left_mono) simp_all
  finally have err: "\<bar>?q - of_nat i * ?c\<bar> \<le> of_nat i * ?c / 2 ^ 52"
    by simp
  have h: "hue i = js_rem ?q 360"
    by (simp add: hue_def hue_at_def)
  from js_rem_nonneg [OF q, of 360] h
  have "?q = of_int \<lfloor>?q / 360\<rfloor> * 360 + hue i" "0 \<le> hue i" "hue i < 360"
    by simp_all
  with err show ?thesis by blast
qed

section \<open>Properties of the Branch Aggregator\<close>

lemma keys_bump:
  "map fst (bump c k) =
     (if k = ''__proto__'' \<or> k \<in> set (map fst c) then map fst c else map fst c @ [k])"
  by (simp add: bump_def AList.update_keys)

lemma count_branches_foldl:
  "map (branch_key rt) ps = map Inr ks \<Longrightarrow> count_branches rt c ps = Inr (foldl bump c ks)"
proof (induction ps arbitrary: ks c)
  case Nil
  then show ?case by simp
next
  case (Cons p ps)
  then obtain k ks' where "ks = k # ks'" "branch_key rt p = Inr k"
    "map (branch_key rt) ps = map Inr ks'"
    by (cases ks) auto
  with Cons.IH [of ks' "bump c k"] show ?case by simp
qed

lemma set_first_seen [simp]: "set (first_seen xs) = set xs"
  by (induction xs) auto

lemma distinct_first_seen [simp]: "distinct (first_seen xs)"
  by (induction xs) (auto simp: distinct_removeAll)

lemma first_seen_distinct: "distinct xs \<Longrightarrow> first_seen xs = xs"
  by (induction xs) auto

lemma keys_foldl_bump:
  "''__proto__'' \<notin> set ks \<Longrightarrow>
   map fst (foldl bump c ks) =
     map fst c @ filter (\<lambda>k. k \<notin> set (map fst c)) (first_seen ks)"
proof (induction ks arbitrary: c)
  case Nil
  then show ?case by simp
next
  case (Cons k ks)
  then have IH: "map fst (foldl bump (bump c k) ks) =
      map fst (bump c k) @ filter (\<lambda>x. x \<notin> set (map fst (bump c k))) (first_seen ks)"
    by simp
  from Cons.prems have k: "k \<noteq> ''__proto__''" by auto
  show ?case
  proof (cases "k \<in> set (map fst c)")
    case True
    then have "filter (\<lambda>x. x \<notin> set (map fst c)) (removeAll k (first_seen ks)) =
               filter (\<lambda>x. x \<notin> set (map fst c)) (first_seen ks)"
      by (auto simp: removeAll_filter_not_eq intro: filter_cong)
    with True IH k show ?thesis
      by (simp add: keys_bump)
  next
    case False
    have "filter (\<lambda>x. x \<noteq> k \<and> x \<notin> set (map fst c)) (first_seen ks) =
          filter (\<lambda>x. x \<notin> set (map fst c)) (removeAll k (first_seen ks))"
      by (auto simp: removeAll_filter_not_eq intro: filter_cong)
    with False IH k show ?thesis
      by (simp add: keys_bump)
  qed
qed

lemma set_own_keys_order [simp]: "set (own_keys_order ks) = set ks"
  by (auto simp: own_keys_order_def)

lemma own_keys_order_no_index:
  "list_all (\<lambda>k. \<not> is_array_index k) ks \<Longrightarrow> own_keys_order ks = ks"
  by (simp add: own_keys_order_def list_all_iff filter_empty_conv)

lemma distinct_own_keys_order: "distinct ks \<Longrightarrow> distinct (own_keys_order ks)"
  by (auto simp: own_keys_order_def)


lemma read_foldl_bump:
  "k \<noteq> ''__proto__'' \<Longrightarrow>
   read_prop (foldl bump c ks) k = (incr ^^ count_list ks k) (read_prop c k)"
proof (induction ks arbitrary: c)
  case Nil
  then show ?case by simp
next
  case (Cons k' ks)
  then show ?case
    by (simp add: read_prop_bump funpow_swap1)
qed

lemma incr_funpow_Undef: "(incr ^^ n) Undef = (if n = 0 then Undef else Count n)"
  by (induction n) auto

lemma incr_funpow_Junk: "(incr ^^ n) Junk = Junk"
  by (induction n) auto

lemma count_list_pos: "k \<in> set ks \<Longrightarrow> 0 < count_list ks k"
  using count_list_0_iff [of ks k] by (cases "count_list ks k") auto

lemma read_from_empty:
  assumes "k \<noteq> ''__proto__''" and "k \<in> set ks"
  shows "read_prop (foldl bump [] ks) k =
     (if k \<in> set proto_names then Junk else Count (count_list ks k))"
proof -
  have "read_prop (foldl bump [] ks) k = (incr ^^ count_list ks k) (read_prop [] k)"
    using assms(1) by (rule read_foldl_bump)
  moreover have "read_prop [] k = (if k \<in> set proto_names then Junk else Undef)"
    by (simp add: read_prop_def)
  ultimately show ?thesis
    using count_list_pos [OF assms(2)] by (simp add: incr_funpow_Undef incr_funpow_Junk)
qed

lemma foldl_bump_proto: "foldl bump c ks = foldl bump c (removeAll ''__proto__'' ks)"
  by (induction ks arbitrary: c) (auto simp: bump_def)

lemma keys_from_empty:
  "map fst (foldl bump [] ks) = first_seen (removeAll ''__proto__'' ks)"
  using keys_foldl_bump [of "removeAll ''__proto__'' ks" "[]"] foldl_bump_proto [of "[]" ks]
  by simp

text \<open>What the Branch Aggregator returns, for every list of participants it can read.\<close>

lemma branch_data:
  assumes "analysis_field data ''participants'' = Inr (Arr ps)"
    and "map (branch_key rt) ps = map Inr ks"
  shows "\<exists>r. processBranchData rt data = Inr r \<and>
           labels r = own_keys_order (first_seen (removeAll ''__proto__'' ks)) \<and>
           values' r = map (\<lambda>l. if l \<in> set proto_names then Junk else Count (count_list ks l))
                         (labels r) \<and>
           colors r = map (branch_color rt) [0..<length (labels r)]"
proof -
  let ?c = "foldl bump [] ks"
  let ?ls = "own_keys_order (first_seen (removeAll ''__proto__'' ks))"
  have c: "count_branches rt [] ps = Inr ?c"
    using assms(2) by (rule count_branches_foldl)
  have ls: "Object_keys ?c = ?ls"
    by (simp add: Object_keys_def keys_from_empty)
  have "read_prop ?c l = (if l \<in> set proto_names then Junk else Count (count_list ks l))"
    if "l \<in> set ?ls" for l
    using that by (intro read_from_empty) auto
  then have "map (read_prop ?c) ?ls =
      map (\<lambda>l. if l \<in> set proto_names then Junk else Count (count_list ks l)) ?ls"
    by (intro map_cong) auto
  with assms(1) c ls show ?thesis
    by (simp add: processBranchData_def Let_def)
qed

lemma branch_throws:
  assumes "analysis_field data ''participants'' = Inr (Arr ps)"
    and "branch_key rt p = Inl e" and "p \<in> set ps"
  shows "\<exists>e'. processBranchData rt data = Inl e'"
proof -
  have "\<exists>e'. count_branches rt c ps = Inl e'" for c
    using assms(2,3)
  proof (induction ps arbitrary: c)
    case Nil
    then show ?case by simp
  next
    case (Cons q qs)
    then show ?case
      by (cases "branch_key rt q") auto
  qed
  then obtain e' where "count_branches rt [] ps = Inl e'" by blast
  with assms(1) show ?thesis
    by (simp add: processBranchData_def)
qed

lemma branch_key_cases:
  "getField p ''branch'' = Inr b \<Longrightarrow> \<not> truthy b \<Longrightarrow> branch_key rt p = Inr ''Unspecified''"
  "getField p ''branch'' = Inr (Str s) \<Longrightarrow> s \<noteq> [] \<Longrightarrow> branch_key rt p = Inr s"
  by (simp_all add: branch_key_def or_else_def)

lemma branch_counts:
  assumes "analysis_field data ''participants'' = Inr (Arr ps)"
    and "map (branch_key rt) ps = map Inr ks"
    and "set ks \<inter> set proto_names = {}"
  shows "\<exists>r. processBranchData rt data = Inr r \<and>
           values' r = map (\<lambda>l. Count (count_list ks l)) (labels r) \<and>
           sum_list (map (count_list ks) (labels r)) = length ps \<and>
           list_all (\<lambda>l. 1 \<le> count_list ks l) (labels r) \<and>
           length (values' r) = length (labels r) \<and>
           length (colors r) = length (labels r)"
proof -
  from branch_data [OF assms(1,2)] obtain r where r: "processBranchData rt data = Inr r"
    "labels r = own_keys_order (first_seen (removeAll ''__proto__'' ks))"
    "values' r = map (\<lambda>l. if l \<in> set proto_names then Junk else Count (count_list ks l))
                         (labels r)"
    "colors r = map (branch_color rt) [0..<length (labels r)]"
    by blast
  from assms(3) have np: "''__proto__'' \<notin> set ks"
    by (auto simp: proto_names_def)
  with r(2) have ls: "set (labels r) = set ks" "distinct (labels r)"
    by (simp_all add: distinct_own_keys_order)
  from ls(1) assms(3) r(3) have v: "values' r = map (\<lambda>l. Count (count_list ks l)) (labels r)"
    by auto
  have "sum_list (map (count_list ks) (labels r)) = sum (count_list ks) (set ks)"
    using ls by (simp add: sum_list_distinct_conv_sum_set)
  also have "\<dots> = length ks"
    by (rule sum_count_set) auto
  also have "\<dots> = length ps"
    using assms(2) by (metis length_map)
  finally have s: "sum_list (map (count_list ks) (labels r)) = length ps" .
  have p: "list_all (\<lambda>l. 1 \<le> count_list ks l) (labels r)"
    using ls(1) by (auto simp: list_all_iff Suc_le_eq count_list_pos)
  from r(1) v s p r(4) show ?thesis
    by simp
qed



text \<open>
  Claim C3, as the code has it.  Let \<open>ks\<close> be the branch labels of the participants after
  defaulting (a missing or falsy \<^verbatim>\<open>branch\<close> gives the literal \<^verbatim>\<open>Unspecified\<close>, a non-empty
  string gives itself), none of them \<^verbatim>\<open>__proto__\<close>.  Then the aggregator returns exactly one
  bucket per distinct label, in the order of \<^verbatim>\<open>Object.keys\<close>: the labels that are array
  indices first, in ascending numeric order, then the other labels in first-seen order;
  so the order is first-seen whenever no label is an array index.  The colour of the
  bucket at index \<open>i\<close> of that order depends on \<open>i\<close> alone: it is the text
  \<^verbatim>\<open>hsla(h, 70%, 60%, 0.7)\<close> with saturation, lightness and alpha fixed, where \<open>h\<close> is the
  decimal text of the hue \<^verbatim>\<open>(i * 137.508) % 360\<close> computed in double precision.  That hue
  lies in \<open>[0, 360)\<close> and is congruent modulo 360 to a number within the relative error
  \<open>2\<^sup>-\<^sup>5\<^sup>2\<close> of the exact product \<open>i \<times> 137.508\<close>.
\<close>

theorem branch_buckets_order:
  "(analysis_field data ''participants'' = Inr (Arr ps) \<and>
    map (branch_key rt) ps = map Inr ks \<and> ''__proto__'' \<notin> set ks \<longrightarrow>
      (\<exists>r. processBranchData rt data = Inr r \<and>
         labels r = own_keys_order (first_seen ks) \<and>
         distinct (labels r) \<and> set (labels r) = set ks \<and>
         (list_all (\<lambda>k. \<not> is_array_index k) ks \<longrightarrow> labels r = first_seen ks) \<and>
         colors r =
           map (\<lambda>i. Css (''hsla('' @ Number_toString rt (hue i) @ '', 70%, 60%, 0.7)''))
             [0..<length (labels r)])) \<and>
   hue i = js_rem (double_of (of_nat i * double_of (137508 / 1000))) 360 \<and>
   (\<exists>q k. \<bar>q - of_nat i * (137508 / 1000)\<bar> \<le> of_nat i * (137508 / 1000) / 2 ^ 52 \<and>
          q = of_int k * 360 + hue i \<and> 0 \<le> hue i \<and> hue i < 360) \<and>
   (getField p ''branch'' = Inr b \<and> \<not> truthy b \<longrightarrow> branch_key rt p = Inr ''Unspecified'') \<and>
   (getField p ''branch'' = Inr (Str s) \<and> s \<noteq> [] \<longrightarrow> branch_key rt p = Inr s)"
proof -
  have "\<exists>r. processBranchData rt data = Inr r \<and>
         labels r = own_keys_order (first_seen ks) \<and>
         distinct (labels r) \<and> set (labels r) = set ks \<and>
         (list_all (\<lambda>k. \<not> is_array_index k) ks \<longrightarrow> labels r = first_seen ks) \<and>
         colors r =
           map (\<lambda>i. Css (''hsla('' @ Number_toString rt (hue i) @ '', 70%, 60%, 0.7)''))
             [0..<length (labels r)]"
    if a: "analysis_field data ''participants'' = Inr (Arr ps)"
      "map (branch_key rt) ps = map Inr ks" and np: "''__proto__'' \<notin> set ks"
  proof -
    from branch_data [OF a] np obtain r where r: "processBranchData rt data = Inr r"
      "labels r = own_keys_order (first_seen ks)"
      "colors r = map (branch_color rt) [0..<length (labels r)]"
      by auto
    have "labels r = first_seen ks" if "list_all (\<lambda>k. \<not> is_array_index k) ks"
      using that r(2) by (simp add: own_keys_order_no_index list_all_iff)
    moreover have "branch_color rt =
        (\<lambda>i. Css (''hsla('' @ Number_toString rt (hue i) @ '', 70%, 60%, 0.7)''))"
      by (rule ext) (simp add: branch_color_def)
    ultimately show ?thesis
      using r by (simp add: distinct_own_keys_order)
  qed
  moreover have "hue i = js_rem (double_of (of_nat i * double_of (137508 / 1000))) 360"
    by (simp add: hue_def hue_at_def)
  moreover note hue_meaning [of i]
  ultimately show ?thesis
    by (simp add: branch_key_cases)
qed

theorem branch_buckets_order_witness:
  "(\<exists>r. processBranchData example_runtime
          (with_participants (Arr [Obj [(''branch'', Str ''NYC'')], Obj [],
                                   Obj [(''branch'', Str ''LA-007'')],
                                   Obj [(''branch'', Str ''NYC'')]])) = Inr r \<and>
        labels r = [''NYC'', ''Unspecified'', ''LA-007''] \<and>
        colors r = [Css ''hsla(0, 70%, 60%, 0.7)'', Css ''hsla(137.508, 70%, 60%, 0.7)'',
                    Css ''hsla(275.016, 70%, 60%, 0.7)'']) \<and>
   hue 3 = 462005989898453 / 2 ^ 43 \<and>
   branch_key example_runtime (Obj [(''branch'', Null)]) = Inr ''Unspecified'' \<and>
   branch_key example_runtime (Obj [(''branch'', Str ''NYC'')]) = Inr ''NYC''"
proof -
  let ?ps = "[Obj [(''branch'', Str ''NYC'')], Obj [], Obj [(''branch'', Str ''LA-007'')],
              Obj [(''branch'', Str ''NYC'')]]"
  let ?ks = "[''NYC'', ''Unspecified'', ''LA-007'', ''NYC'']"
  have a: "analysis_field (with_participants (Arr ?ps)) ''participants'' = Inr (Arr ?ps)"
    by (simp add: with_participants_def analysis_field_def)
  have b: "map (branch_key example_runtime) ?ps = map Inr ?ks"
    by (simp add: branch_key_def or_else_def)
  have c: "''__proto__'' \<notin> set ?ks"
    by simp
  have d: "list_all (\<lambda>k. \<not> is_array_index k) ?ks"
    by code_simp
  have e: "first_seen ?ks = [''NYC'', ''Unspecified'', ''LA-007'']"
    by simp
  have f: "getField (Obj [(''branch'', Null)]) ''branch'' = Inr Null \<and> \<not> truthy Null"
    by simp
  have g: "getField (Obj [(''branch'', Str ''NYC'')]) ''branch'' = Inr (Str ''NYC'') \<and> ''NYC'' \<noteq> []"
    by simp
  have h: "js_rem (double_of (of_nat 3 * double_of (137508 / 1000))) 360 =
      462005989898453 / 2 ^ 43"
    by code_simp
  have m: "map (\<lambda>i. Css (''hsla('' @ Number_toString example_runtime (hue i) @
                             '', 70%, 60%, 0.7)''))
             [0..<length [''NYC'', ''Unspecified'', ''LA-007'']] =
      [Css ''hsla(0, 70%, 60%, 0.7)'', Css ''hsla(137.508, 70%, 60%, 0.7)'',
       Css ''hsla(275.016, 70%, 60%, 0.7)'']"
    by code_simp
  from branch_buckets_order [where data = "with_participants (Arr ?ps)" and ps = ?ps
      and rt = example_runtime and ks = ?ks and p = "Obj [(''branch'', Null)]" and b = Null
      and s = "''NYC''" and i = 3] a b c d f
  have "\<exists>r. processBranchData example_runtime (with_participants (Arr ?ps)) = Inr r \<and>
        labels r = first_seen ?ks \<and>
        colors r =
          map (\<lambda>i. Css (''hsla('' @ Number_toString example_runtime (hue i) @
                          '', 70%, 60%, 0.7)''))
            [0..<length (labels r)]"
    "hue 3 = js_rem (double_of (of_nat 3 * double_of (137508 / 1000))) 360"
    "branch_key example_runtime (Obj [(''branch'', Null)]) = Inr ''Unspecified''"
    by blast+
  moreover from branch_buckets_order [where rt = example_runtime
      and p = "Obj [(''branch'', Str ''NYC'')]" and s = "''NYC''"] g
  have "branch_key example_runtime (Obj [(''branch'', Str ''NYC'')]) = Inr ''NYC''"
    by blast
  ultimately show ?thesis
    unfolding e h using m by auto
qed

text \<open>
  The claim as the specification states it (buckets in first-seen order) fails: for the
  participants \<^verbatim>\<open>[{"branch":"B"},{"branch":"101"}]\<close> the bucket of \<^verbatim>\<open>101\<close>, seen second, comes
  first.
\<close>

theorem branch_buckets_order_counterexample:
  "map_sum id labels
     (processBranchData example_runtime
        (with_participants (Arr [Obj [(''branch'', Str ''B'')],
                                 Obj [(''branch'', Str ''101'')]]))) = Inr [''101'', ''B''] \<and>
   first_seen [''B'', ''101''] = [''B'', ''101'']"
  by code_simp

text \<open>
  Claim C9 (the bucket counts sum to the number of participants, each count is at least
  one, and the three arrays have the same length) holds on every list whose labels are
  not names that a plain object inherits, as \<open>branch_counts\<close> shows.  On an inherited
  name the code goes wrong: for the single participant \<^verbatim>\<open>{"branch":"constructor"}\<close> the
  value of the bucket is not a number but a string, and the participant
  \<^verbatim>\<open>{"branch":"__proto__"}\<close> gets no bucket at all.
\<close>

theorem branch_counts_inherited_key:
  "map_sum id values'
     (processBranchData rt
        (with_participants (Arr [Obj [(''branch'', Str ''constructor'')]]))) = Inr [Junk] \<and>
   map_sum id labels
     (processBranchData rt
        (with_participants (Arr [Obj [(''branch'', Str ''__proto__'')]]))) = Inr []"
  by (simp add: processBranchData_def with_participants_def analysis_field_def branch_key_def
        or_else_def bump_def read_prop_def proto_names_def Object_keys_def own_keys_order_def
        is_array_index_def is_digit_def)

section \<open>Properties of the Session Controller\<close>

lemma exceptions_of_lacking:
  "\<not> has_exceptions_field v \<Longrightarrow> exceptions_of v = Inl TypeError \<or> exceptions_of v = Inr Undefined"
  by (cases v) (auto simp: has_exceptions_field_def exceptions_of_def split: option.splits jsval.splits)

lemma analyze_click_parse_error:
  assumes "JSON_parse rt (trim (textarea st)) = None"
  shows "analyze_click rt reply st =
     st\<lparr> alerts := (Failure ''Analysis failed'' SyntaxError, ''danger'') # alerts st,
         analyzeBtn := setLoadingState False ''Analyze Data'' \<rparr>"
  using assms by (simp add: analyze_click_def analyze_try_def showAlert_def)

lemma analyze_click_type_error:
  assumes "JSON_parse rt (trim (textarea st)) = Some auditData"
    and "exceptions_of auditData = Inl e"
  shows "analyze_click rt reply st =
     st\<lparr> alerts := (Failure ''Analysis failed'' e, ''danger'') # alerts st,
         analyzeBtn := setLoadingState False ''Analyze Data'' \<rparr>"
  using assms by (simp add: analyze_click_def analyze_try_def showAlert_def)

lemma analyze_click_rejected:
  assumes "JSON_parse rt (trim (textarea st)) = Some auditData"
    and "exceptions_of auditData = Inr v" and "\<not> truthy v"
  shows "analyze_click rt reply st =
     st\<lparr> alerts := (Message ''JSON must contain audit_report with exceptions array'', ''danger'')
                     # alerts st,
         analyzeBtn := setLoadingState False ''Analyze Data'' \<rparr>"
  using assms by (simp add: analyze_click_def analyze_try_def showAlert_def)

lemma analyze_click_sent:
  assumes "JSON_parse rt (trim (textarea st)) = Some auditData"
    and "exceptions_of auditData = Inr v" and "truthy v"
  shows "requests (analyze_click rt reply st) =
           requests st @ [(''/analyze'', trim (textarea st))]"
  using assms
  by (simp add: analyze_click_def analyze_try_def showAlert_def Let_def
        split: reply.splits option.splits sum.splits prod.splits)

lemma analyze_click_failure:
  assumes "JSON_parse rt (trim (textarea st)) = Some auditData"
    and "exceptions_of auditData = Inr v" and "truthy v"
  shows "\<exists>e. analyze_click rt (Response False body) st =
     st\<lparr> requests := requests st @ [(''/analyze'', trim (textarea st))],
         alerts := (Failure ''Analysis failed'' e, ''danger'') # alerts st,
         analyzeBtn := setLoadingState False ''Analyze Data'' \<rparr> \<and>
     (case body of
        None \<Rightarrow> e = SyntaxError
      | Some data \<Rightarrow>
          (case getField data ''error'' of
             Inl t \<Rightarrow> e = t
           | Inr msg \<Rightarrow>
               (case ToString rt (or_else msg (Str ''Analysis failed'')) of
                  Inl t \<Rightarrow> e = t
                | Inr m \<Rightarrow> e = Error m)))"
  using assms
  by (simp add: analyze_click_def analyze_try_def showAlert_def Let_def
        split: option.splits sum.splits prod.splits)

lemma displayResults_no_analysis:
  assumes "case data of Obj kvs \<Rightarrow> map_of kvs ''analysis'' = None | _ \<Rightarrow> True"
  shows "\<exists>v'. displayResults rt data v = (v', Some TypeError)"
  using assms by (cases data) (simp_all add: displayResults_def Let_def split: option.splits)

lemma sample_report_accepted:
  "JSON_parse example_runtime (trim (textarea (typed sample_report_text))) = Some sample_report"
  "exceptions_of sample_report = Inr (Arr [Obj [(''severity'', Str ''High'')]])"
  "truthy (Arr [Obj [(''severity'', Str ''High'')]])"
  by code_simp+

lemma invalid_input_no_request:
  assumes "JSON_parse rt (trim (textarea st)) = None \<or>
    (\<exists>auditData. JSON_parse rt (trim (textarea st)) = Some auditData \<and>
       \<not> has_exceptions_field auditData)"
  shows "\<exists>message.
      message \<in> {Failure ''Analysis failed'' SyntaxError, Failure ''Analysis failed'' TypeError,
                 Message ''JSON must contain audit_report with exceptions array''} \<and>
      analyze_click rt reply st =
        st\<lparr> alerts := (message, ''danger'') # alerts st,
            analyzeBtn := setLoadingState False ''Analyze Data'' \<rparr>"
proof -
  from assms consider
      (unparsed) "JSON_parse rt (trim (textarea st)) = None"
    | (thrown) auditData where "JSON_parse rt (trim (textarea st)) = Some auditData"
        "exceptions_of auditData = Inl TypeError"
    | (missing) auditData where "JSON_parse rt (trim (textarea st)) = Some auditData"
        "exceptions_of auditData = Inr Undefined"
    by (auto dest: exceptions_of_lacking)
  then show ?thesis
  proof cases
    case unparsed
    then show ?thesis
      by (intro exI [of _ "Failure ''Analysis failed'' SyntaxError"])
        (simp add: analyze_click_parse_error)
  next
    case thrown
    then show ?thesis
      by (intro exI [of _ "Failure ''Analysis failed'' TypeError"])
        (simp add: analyze_click_type_error)
  next
    case missing
    then show ?thesis
      by (intro exI [of _ "Message ''JSON must contain audit_report with exceptions array''"])
        (simp add: analyze_click_rejected [where v = Undefined])
  qed
qed

lemma invalid_input_state:
  assumes "JSON_parse rt (trim (textarea st)) = None \<or>
    (\<exists>auditData. JSON_parse rt (trim (textarea st)) = Some auditData \<and>
       \<not> has_exceptions_field auditData)"
  shows "requests (analyze_click rt reply st) = requests st"
    and "currentAnalysis (analyze_click rt reply st) = currentAnalysis st"
    and "storage (analyze_click rt reply st) = storage st"
    and "panels (analyze_click rt reply st) = panels st"
    and "resultsHidden (analyze_click rt reply st) = resultsHidden st"
    and "length (alerts (analyze_click rt reply st)) = Suc (length (alerts st))"
    and "visible_alerts (analyze_click rt reply st) =
           (if resultsHidden st then [] else alerts (analyze_click rt reply st))"
  using invalid_input_no_request [OF assms, of reply]
  by (auto simp: visible_alerts_def)

text \<open>
  Claim C4 is right about the request and the state: by the two lemmas above, when the
  trimmed text does not parse as JSON or parses to a document without the nested field
  \<^verbatim>\<open>audit_report.exceptions\<close>, no request is sent, exactly one alert of type \<^verbatim>\<open>danger\<close> is
  inserted, and the current analysis, its stored copy, the panels and the charts stay as
  they were.  The code fails the claim's \<^emph>\<open>user-visible\<close>: the handler's own \<^verbatim>\<open>showAlert\<close>
  (which shadows the page's global helper and its always visible \<^verbatim>\<open>#alertContainer\<close>)
  inserts the alert into the results section, and that section stays hidden.  On a
  freshly loaded page both kinds of invalid input leave the user with no visible alert.
\<close>

theorem invalid_input_alert_hidden:
  \<open>requests (analyze_click example_runtime (Response True (Some sample_analysis))
      (typed '' not json '')) = [] \<and>
   alerts (analyze_click example_runtime (Response True (Some sample_analysis))
      (typed '' not json '')) = [(Failure ''Analysis failed'' SyntaxError, ''danger'')] \<and>
   resultsHidden (analyze_click example_runtime (Response True (Some sample_analysis))
      (typed '' not json '')) = True \<and>
   visible_alerts (analyze_click example_runtime (Response True (Some sample_analysis))
      (typed '' not json '')) = [] \<and>
   requests (analyze_click example_runtime (Response True (Some sample_analysis))
      (typed ''{"audit_report":{}}'')) = [] \<and>
   alerts (analyze_click example_runtime (Response True (Some sample_analysis))
      (typed ''{"audit_report":{}}'')) =
     [(Message ''JSON must contain audit_report with exceptions array'', ''danger'')] \<and>
   visible_alerts (analyze_click example_runtime (Response True (Some sample_analysis))
      (typed ''{"audit_report":{}}'')) = []\<close>
  by code_simp

text \<open>
  Claim C5, as the code has it.  Validation tests the truthiness of
  \<^verbatim>\<open>audit_report.exceptions\<close> and nothing else: whenever that field is an array, empty or
  not, the request is sent with the trimmed text as its body; whenever \<^verbatim>\<open>audit_report\<close> is
  missing or \<^verbatim>\<open>null\<close>, or \<^verbatim>\<open>exceptions\<close> is missing or falsy, no request is sent.
\<close>

theorem validation_gate:
  "JSON_parse rt (trim (textarea st)) = Some auditData \<and>
   getField auditData ''audit_report'' = Inr audit_report \<longrightarrow>
     (getField audit_report ''exceptions'' = Inr (Arr xs) \<longrightarrow>
        requests (analyze_click rt reply st) =
          requests st @ [(''/analyze'', trim (textarea st))]) \<and>
     (nullish audit_report \<or>
      (\<exists>e. getField audit_report ''exceptions'' = Inr e \<and> \<not> truthy e) \<longrightarrow>
        requests (analyze_click rt reply st) = requests st)"
proof (intro impI conjI)
  assume a: "JSON_parse rt (trim (textarea st)) = Some auditData \<and>
    getField auditData ''audit_report'' = Inr audit_report"
  {
    assume "getField audit_report ''exceptions'' = Inr (Arr xs)"
    with a have "exceptions_of auditData = Inr (Arr xs)"
      by (cases audit_report) (auto simp: exceptions_of_def)
    with a show "requests (analyze_click rt reply st) =
          requests st @ [(''/analyze'', trim (textarea st))]"
      by (simp add: analyze_click_sent [where v = "Arr xs"])
  }
  {
    assume "nullish audit_report \<or>
      (\<exists>e. getField audit_report ''exceptions'' = Inr e \<and> \<not> truthy e)"
    with a have "\<exists>e. exceptions_of auditData = Inr e \<and> \<not> truthy e"
      by (cases "nullish audit_report") (auto simp: exceptions_of_def)
    then obtain e where "exceptions_of auditData = Inr e" "\<not> truthy e"
      by blast
    with a show "requests (analyze_click rt reply st) = requests st"
      by (simp add: analyze_click_rejected [where v = e])
  }
qed

theorem validation_gate_witness:
  \<open>requests (analyze_click example_runtime Rejected (typed sample_report_text)) =
     [(''/analyze'', sample_report_text)] \<and>
   requests (analyze_click example_runtime Rejected (typed ''{"audit_report":{}}'')) = []\<close>
proof -
  have a: "JSON_parse example_runtime (trim (textarea (typed sample_report_text))) =
      Some sample_report"
    "trim (textarea (typed sample_report_text)) = sample_report_text"
    by code_simp+
  have b: "getField sample_report ''audit_report'' =
      Inr (Obj [(''exceptions'', Arr [Obj [(''severity'', Str ''High'')]])])"
    "getField (Obj [(''exceptions'', Arr [Obj [(''severity'', Str ''High'')]])]) ''exceptions'' =
      Inr (Arr [Obj [(''severity'', Str ''High'')]])"
    by (simp_all add: sample_report_def)
  have c: \<open>JSON_parse example_runtime (trim (textarea (typed ''{"audit_report":{}}''))) =
      Some (Obj [(''audit_report'', Obj [])])\<close>
    by code_simp
  have d: "getField (Obj [(''audit_report'', Obj [])]) ''audit_report'' = Inr (Obj [])"
    "getField (Obj []) ''exceptions'' = Inr Undefined \<and> \<not> truthy Undefined"
    by simp_all
  have e: "requests (typed t) = []" for t
    by (simp add: typed_def fresh_page_def)
  from validation_gate [of example_runtime "typed sample_report_text" sample_report
      "Obj [(''exceptions'', Arr [Obj [(''severity'', Str ''High'')]])]"
      "[Obj [(''severity'', Str ''High'')]]" Rejected] a b
  have "requests (analyze_click example_runtime Rejected (typed sample_report_text)) =
     [(''/analyze'', sample_report_text)]"
    by (simp add: e)
  moreover
  from validation_gate [of example_runtime \<open>typed ''{"audit_report":{}}''\<close>
      "Obj [(''audit_report'', Obj [])]" "Obj []" _ Rejected] c d
  have \<open>requests (analyze_click example_runtime Rejected (typed ''{"audit_report":{}}'')) = []\<close>
    by (simp add: e)
  ultimately show ?thesis by simp
qed

text \<open>
  The claim as the specification states it (an empty \<^verbatim>\<open>exceptions\<close> array is rejected before
  any request) fails: for the input \<^verbatim>\<open>{"audit_report":{"exceptions":[]}}\<close> the request is
  sent, an empty array being truthy.
\<close>

theorem validation_gate_counterexample:
  "requests (analyze_click example_runtime Rejected (typed empty_report_text)) =
     [(''/analyze'', empty_report_text)] \<and>
   exceptions_of empty_report = Inr (Arr []) \<and>
   JSON_parse example_runtime empty_report_text = Some empty_report"
  by code_simp

text \<open>
  Claim C6.  The controller has one slot for the current analysis.  When validation
  passes and the service answers with success and a JSON body, the handler sets the slot
  to that body and the stored copy to its serialisation, whatever the slot and the
  store held before; both are written before anything is rendered.
\<close>

theorem successful_analysis_replaces:
  "JSON_parse rt (trim (textarea st)) = Some auditData \<and>
   exceptions_of auditData = Inr v \<and> truthy v \<longrightarrow>
     currentAnalysis (analyze_click rt (Response True (Some data)) st) = data \<and>
     storage (analyze_click rt (Response True (Some data)) st) = Some (JSON_stringify rt data) \<and>
     currentAnalysis (analyze_click rt (Response True (Some data))
        (st\<lparr> currentAnalysis := previous, storage := saved \<rparr>)) = data \<and>
     storage (analyze_click rt (Response True (Some data))
        (st\<lparr> currentAnalysis := previous, storage := saved \<rparr>)) = Some (JSON_stringify rt data)"
  by (simp add: analyze_click_def analyze_try_def showAlert_def Let_def
        split: option.splits sum.splits prod.splits)

theorem successful_analysis_replaces_witness:
  "currentAnalysis (analyze_click example_runtime (Response True (Some sample_analysis))
      (typed sample_report_text)) = sample_analysis \<and>
   storage (analyze_click example_runtime (Response True (Some sample_analysis))
      (typed sample_report_text)) = Some sample_analysis_text \<and>
   currentAnalysis (analyze_click example_runtime (Response True (Some sample_analysis))
      ((typed sample_report_text)\<lparr> currentAnalysis := Obj [], storage := Some ''{}'' \<rparr>)) =
     sample_analysis \<and>
   storage (analyze_click example_runtime (Response True (Some sample_analysis))
      ((typed sample_report_text)\<lparr> currentAnalysis := Obj [], storage := Some ''{}'' \<rparr>)) =
     Some sample_analysis_text"
proof -
  have "JSON_stringify example_runtime sample_analysis = sample_analysis_text"
    by code_simp
  with successful_analysis_replaces [where rt = example_runtime
      and st = "typed sample_report_text" and auditData = sample_report
      and v = "Arr [Obj [(''severity'', Str ''High'')]]" and data = sample_analysis
      and previous = "Obj []" and saved = "Some ''{}''"] sample_report_accepted
  show ?thesis by simp
qed

lemma service_failure_state:
  assumes "JSON_parse rt (trim (textarea st)) = Some auditData"
    and "exceptions_of auditData = Inr v" and "truthy v"
  shows "currentAnalysis (analyze_click rt (Response False body) st) = currentAnalysis st"
    and "storage (analyze_click rt (Response False body) st) = storage st"
    and "panels (analyze_click rt (Response False body) st) = panels st"
    and "resultsHidden (analyze_click rt (Response False body) st) = resultsHidden st"
    and "analyzeBtn (analyze_click rt (Response False body) st) =
           \<lparr> busy = False, caption = ''Analyze Data'' \<rparr>"
    and "visible_alerts (analyze_click rt (Response False body) st) =
           (if resultsHidden st then []
            else alerts (analyze_click rt (Response False body) st))"
  using analyze_click_failure [OF assms, of body]
  by (auto simp: visible_alerts_def setLoadingState_def)

lemma service_failure_message:
  assumes "JSON_parse rt (trim (textarea st)) = Some auditData"
    and "exceptions_of auditData = Inr v" and "truthy v"
    and "getField data ''error'' = Inr msg"
  shows "msg = Str m \<and> m \<noteq> [] \<longrightarrow>
           alerts (analyze_click rt (Response False (Some data)) st) =
             (Failure ''Analysis failed'' (Error m), ''danger'') # alerts st"
    and "\<not> truthy msg \<longrightarrow>
           alerts (analyze_click rt (Response False (Some data)) st) =
             (Failure ''Analysis failed'' (Error ''Analysis failed''), ''danger'') # alerts st"
  using analyze_click_failure [OF assms(1-3), of "Some data"] assms(4)
  by (auto simp: or_else_def)

text \<open>
  Claim C7 is right about the state: by \<open>service_failure_state\<close> a non-success answer
  leaves the current analysis, its stored copy and the rendered results as they were and
  releases the button; and by \<open>service_failure_message\<close> the alert built for a JSON body
  carries the body's \<^verbatim>\<open>error\<close> string, else the fallback \<^verbatim>\<open>Analysis failed\<close>.  The code fails
  the claim in two ways.  It reads the body as JSON before it tests the status, so for an
  error body that is not JSON the alert carries the parser's message, neither the
  service's nor the fallback.  And it inserts the alert into the results section, which
  is hidden on a freshly loaded page: there even the service's own message is not
  surfaced.
\<close>

theorem service_failure_not_surfaced:
  "alerts (analyze_click example_runtime (Response False None) (typed sample_report_text)) =
     [(Failure ''Analysis failed'' SyntaxError, ''danger'')] \<and>
   visible_alerts (analyze_click example_runtime (Response False None)
      (typed sample_report_text)) = [] \<and>
   alerts (analyze_click example_runtime
      (Response False (Some (Obj [(''error'', Str ''Model unavailable'')])))
      (typed sample_report_text)) =
     [(Failure ''Analysis failed'' (Error ''Model unavailable''), ''danger'')] \<and>
   visible_alerts (analyze_click example_runtime
      (Response False (Some (Obj [(''error'', Str ''Model unavailable'')])))
      (typed sample_report_text)) = [] \<and>
   currentAnalysis (analyze_click example_runtime (Response False None)
      (typed sample_report_text)) = Null \<and>
   storage (analyze_click example_runtime (Response False None)
      (typed sample_report_text)) = None"
  by code_simp

text \<open>
  Claim C8.  When there is no current analysis (the variable is \<^verbatim>\<open>null\<close>, or any falsy
  value), Generate Report adds the warning alert and changes nothing else: no request is
  sent.  When there is one, the request to \<^verbatim>\<open>/generate-report\<close> carries exactly
  \<^verbatim>\<open>JSON.stringify\<close> of the current analysis.
\<close>

theorem report_requires_analysis:
  "(\<not> truthy (currentAnalysis st) \<longrightarrow>
      generateReport_click rt reply st =
        st\<lparr> alerts := (Message ''No analysis results available'', ''warning'') # alerts st \<rparr>) \<and>
   (truthy (currentAnalysis st) \<longrightarrow>
      requests (generateReport_click rt reply st) =
        requests st @ [(''/generate-report'', JSON_stringify rt (currentAnalysis st))])"
  by (simp add: generateReport_click_def showAlert_def Let_def split: reply.splits)

theorem report_requires_analysis_witness:
  "generateReport_click example_runtime (Response True ''docx'') (fresh_page None) =
     (fresh_page None)\<lparr> alerts := [(Message ''No analysis results available'', ''warning'')] \<rparr> \<and>
   requests (generateReport_click example_runtime (Response True ''docx'') showing_sample) =
     [(''/analyze'', sample_report_text), (''/generate-report'', sample_analysis_text)]"
proof -
  have a: "\<not> truthy (currentAnalysis (fresh_page None))" "alerts (fresh_page None) = []"
    by (simp_all add: fresh_page_def)
  have b: "currentAnalysis showing_sample = sample_analysis"
    "requests showing_sample = [(''/analyze'', sample_report_text)]"
    "JSON_stringify example_runtime sample_analysis = sample_analysis_text"
    "truthy sample_analysis"
    by code_simp+
  from report_requires_analysis [of "fresh_page None" example_runtime "Response True ''docx''"] a
    report_requires_analysis [of showing_sample example_runtime "Response True ''docx''"] b
  show ?thesis by simp
qed

text \<open>
  Claim C10.  The restore step is not total over the saved values: a non-empty saved
  string that is not JSON makes page load throw an uncaught \<^verbatim>\<open>SyntaxError\<close>, and a saved
  string that parses to \<^verbatim>\<open>null\<close>, to any other value that is not an object, or to an object
  without \<^verbatim>\<open>analysis\<close> makes it throw an uncaught \<^verbatim>\<open>TypeError\<close>.  With nothing saved the page
  loads into its initial state.
\<close>

theorem restore_not_total:
  "(saved \<noteq> [] \<and> JSON_parse rt saved = None \<longrightarrow>
      snd (page_load rt (Some saved)) = Some SyntaxError) \<and>
   (saved \<noteq> [] \<and> JSON_parse rt saved = Some data \<and>
    (case data of Obj kvs \<Rightarrow> map_of kvs ''analysis'' = None | _ \<Rightarrow> True) \<longrightarrow>
      snd (page_load rt (Some saved)) = Some TypeError) \<and>
   page_load rt None = (fresh_page None, None)"
proof -
  have "snd (page_load rt (Some saved)) = Some TypeError"
    if "saved \<noteq> []" "JSON_parse rt saved = Some data"
      "case data of Obj kvs \<Rightarrow> map_of kvs ''analysis'' = None | _ \<Rightarrow> True"
  proof -
    from displayResults_no_analysis [OF that(3)] obtain v' where
      "displayResults rt data (panels ((fresh_page (Some saved))\<lparr> currentAnalysis := data \<rparr>)) =
         (v', Some TypeError)"
      by blast
    with that(1,2) show ?thesis
      by (simp add: page_load_def restore_def Let_def) (simp add: fresh_page_def)
  qed
  then show ?thesis
    by (simp add: page_load_def restore_def fresh_page_def)
qed

theorem restore_not_total_witness:
  "snd (page_load example_runtime (Some ''not json'')) = Some SyntaxError \<and>
   snd (page_load example_runtime (Some ''null'')) = Some TypeError \<and>
   storage (analyze_click example_runtime (Response True (Some Null))
              (typed sample_report_text)) = Some ''null''"
proof -
  have a: "JSON_parse example_runtime ''not json'' = None"
    "JSON_parse example_runtime ''null'' = Some Null"
    by code_simp+
  have b: "storage (analyze_click example_runtime (Response True (Some Null))
              (typed sample_report_text)) = Some ''null''"
    by code_simp
  from restore_not_total [of "''not json''" example_runtime Null]
    restore_not_total [of "''null''" example_runtime Null] a b
  show ?thesis by simp
qed

end
